theory Spec2Isabelle
  imports Main "HOL-Library.AList" "HOL-Library.Sublist"
begin

section \<open>MongoQueryRunner: the query runner of the MongoDB driver\<close>

text \<open>
  The development embeds \<^verbatim>\<open>src/driver/mongodb/MongoQueryRunner.ts\<close>. The class holds a
  reference to its connection (of which the methods read \<^verbatim>\<open>options.enableTransactions\<close> and
  \<^verbatim>\<open>driver.database\<close>), the flags \<^verbatim>\<open>isReleased\<close> and \<^verbatim>\<open>isTransactionActive\<close>, and the optional
  \<^verbatim>\<open>session\<close>. Every method is a function from the runner before the call to the completion
  of the call, the runner after it, and the list of calls it made on its collaborators
  (the MongoDB client, the session, the broadcaster, the logger), in order.

  The collaborators are not part of the file. Their behaviour during one call is a
  parameter of the model, the \<open>world\<close>: for each call it says whether it fails, and with
  what. A collaborator is assumed not to call back into the runner.
\<close>

subsection \<open>Values, errors and completions\<close>

type_synonym client_session = nat

text \<open>
  JavaScript values as far as the runner looks into them: \<^verbatim>\<open>undefined\<close>, a client session,
  an object literal with its properties in insertion order, and anything else (documents,
  pipelines, names, numbers, functions), which the runner only hands on.
\<close>

datatype jsval =
    JUndefined
  | JSession client_session
  | JObject "(string \<times> jsval) list"
  | JOpaque string

text \<open>
  \<^verbatim>\<open>TypeORMError\<close> with its message, \<^verbatim>\<open>TransactionNotStartedError\<close>, and whatever a
  collaborator raises, which the runner never inspects.
\<close>

datatype error =
    TypeORMError string
  | TransactionNotStartedError
  | External nat

text \<open>
  A method that is not \<^verbatim>\<open>async\<close> returns or throws; an \<^verbatim>\<open>async\<close> method gives a promise
  that is fulfilled or rejected.
\<close>

datatype 'a completion =
    Returned 'a
  | Thrown error
  | Fulfilled 'a
  | Rejected error

fun failure :: "'a completion \<Rightarrow> error option" where
  "failure (Returned _) = None"
| "failure (Thrown e) = Some e"
| "failure (Fulfilled _) = None"
| "failure (Rejected e) = Some e"

subsection \<open>Collaborators\<close>

datatype event =
    BeforeTransactionStart
  | AfterTransactionStart
  | BeforeTransactionCommit
  | AfterTransactionCommit
  | BeforeTransactionRollback
  | AfterTransactionRollback

text \<open>
  A call on a collection: \<^verbatim>\<open>databaseConnection.db(database).collection(name).method(args, options)\<close>.
  \<open>call_options\<close> is \<open>None\<close> where the call site passes no options argument. The two
  calls on the database itself, \<^verbatim>\<open>dropDatabase\<close> and \<^verbatim>\<open>dropCollection\<close>, are recorded with the
  database name, the collection name for the second, and their options argument likewise.
\<close>

record client_call =
  call_db :: string
  call_collection :: string
  call_method :: string
  call_args :: "jsval list"
  call_options :: "jsval option"

datatype effect =
    Broadcast event
  | StartSession
  | SessionStartTransaction client_session
  | SessionCommitTransaction client_session
  | SessionAbortTransaction client_session
  | SessionEndSession client_session
  | LogQuery string
  | CollectionCall client_call
  | DbDropDatabase string "jsval option"
  | DbDropCollection string string "jsval option"

text \<open>
  A call whose result the runner does not await, as \<^verbatim>\<open>this.session?.endSession()\<close> in the
  commit and the rollback: it completes, or it throws, or it returns a promise that is
  rejected later. Only a throw reaches the method that made the call; a later rejection
  is observed by nobody, and the method goes on as after a call that completes.
\<close>

datatype unawaited =
    Completes
  | ThrowsNow error
  | RejectsLater error

fun thrown_by :: "unawaited \<Rightarrow> error option" where
  "thrown_by Completes = None"
| "thrown_by (ThrowsNow e) = Some e"
| "thrown_by (RejectsLater _) = None"

text \<open>
  What the collaborators do during one call of a runner method. For a call that the
  runner awaits (the broadcasts, the session's commit and abort, the calls on a
  collection and on the database), \<open>None\<close> is a call that succeeds and \<open>Some e\<close> one that
  fails with \<open>e\<close>, by a throw or by a rejected promise alike. \<^verbatim>\<open>startSession\<close>, the session's
  \<^verbatim>\<open>startTransaction\<close> and \<^verbatim>\<open>logQuery\<close> are called without \<^verbatim>\<open>await\<close> and their results are
  not promises: there \<open>Some e\<close> (\<open>Inl e\<close>) is a call that throws \<open>e\<close>.
\<close>

record world =
  broadcast :: "event \<Rightarrow> error option"
  startSession :: "error + client_session"
  session_startTransaction :: "client_session \<Rightarrow> error option"
  session_commitTransaction :: "client_session \<Rightarrow> error option"
  session_abortTransaction :: "client_session \<Rightarrow> error option"
  session_endSession :: "client_session \<Rightarrow> unawaited"
  logQuery :: "string \<Rightarrow> error option"
  collection :: "client_call \<Rightarrow> error + jsval"
  db_dropDatabase :: "string \<Rightarrow> error option"
  db_dropCollection :: "string \<Rightarrow> string \<Rightarrow> error option"

subsection \<open>The runner\<close>

record runner =
  enableTransactions :: bool
  database :: string
  isReleased :: bool
  isTransactionActive :: bool
  session :: "client_session option"

text \<open>The constructor, with the field initialisers of the class.\<close>

definition MongoQueryRunner :: "bool \<Rightarrow> string \<Rightarrow> runner" where
  "MongoQueryRunner enable db =
     \<lparr> enableTransactions = enable, database = db, isReleased = False,
       isTransactionActive = False, session = None \<rparr>"

type_synonym 'a outcome = "'a completion \<times> runner \<times> effect list"

definition completion_of :: "'a outcome \<Rightarrow> 'a completion" where
  "completion_of x = fst x"

definition runner_of :: "'a outcome \<Rightarrow> runner" where
  "runner_of x = fst (snd x)"

definition effects_of :: "'a outcome \<Rightarrow> effect list" where
  "effects_of x = snd (snd x)"

subsection \<open>Transactions\<close>

text \<open>
  \<^verbatim>\<open>startTransaction\<close>: return at once when transactions are not enabled; set the flag;
  broadcast, and on failure clear the flag and rethrow; then, inside the promise, start a
  session, store it, start its transaction and log, any failure rejecting the promise;
  then broadcast again.
\<close>

definition startTransaction :: "world \<Rightarrow> runner \<Rightarrow> unit outcome" where
  "startTransaction w r =
     (if \<not> enableTransactions r then (Fulfilled (), r, [])
      else
        let r1 = r\<lparr>isTransactionActive := True\<rparr> in
        case broadcast w BeforeTransactionStart of
          Some err \<Rightarrow>
            (Rejected err, r1\<lparr>isTransactionActive := False\<rparr>, [Broadcast BeforeTransactionStart])
        | None \<Rightarrow>
            (case startSession w of
               Inl e \<Rightarrow> (Rejected e, r1, [Broadcast BeforeTransactionStart, StartSession])
             | Inr sid \<Rightarrow>
                 let r2 = r1\<lparr>session := Some sid\<rparr> in
                 (case session_startTransaction w sid of
                    Some e \<Rightarrow>
                      (Rejected e, r2,
                       [Broadcast BeforeTransactionStart, StartSession,
                        SessionStartTransaction sid])
                  | None \<Rightarrow>
                      (case logQuery w ''BEGIN TRANSACTION'' of
                         Some e \<Rightarrow>
                           (Rejected e, r2,
                            [Broadcast BeforeTransactionStart, StartSession,
                             SessionStartTransaction sid, LogQuery ''BEGIN TRANSACTION''])
                       | None \<Rightarrow>
                           (case broadcast w AfterTransactionStart of
                              Some e \<Rightarrow>
                                (Rejected e, r2,
                                 [Broadcast BeforeTransactionStart, StartSession,
                                  SessionStartTransaction sid, LogQuery ''BEGIN TRANSACTION'',
                                  Broadcast AfterTransactionStart])
                            | None \<Rightarrow>
                                (Fulfilled (), r2,
                                 [Broadcast BeforeTransactionStart, StartSession,
                                  SessionStartTransaction sid, LogQuery ''BEGIN TRANSACTION'',
                                  Broadcast AfterTransactionStart]))))))"

text \<open>
  \<^verbatim>\<open>commitTransaction\<close>: return at once when transactions are not enabled; throw when the
  flag is not set; broadcast; then, inside the promise, \<^verbatim>\<open>await this.session?.commitTransaction()\<close>
  and \<^verbatim>\<open>this.session?.endSession()\<close> (both skipped when there is no session), clear the flag
  and the session, broadcast, resolve, and log. The logger is called after \<^verbatim>\<open>ok()\<close>, so what
  it does no longer changes the promise. \<^verbatim>\<open>endSession\<close> is called without \<^verbatim>\<open>await\<close>: the
  \<^verbatim>\<open>catch\<close> sees what it throws, and a promise it returns is dropped, rejected or not.
\<close>

definition commitTransaction :: "world \<Rightarrow> runner \<Rightarrow> unit outcome" where
  "commitTransaction w r =
     (if \<not> enableTransactions r then (Fulfilled (), r, [])
      else if \<not> isTransactionActive r then (Rejected TransactionNotStartedError, r, [])
      else
        case broadcast w BeforeTransactionCommit of
          Some e \<Rightarrow> (Rejected e, r, [Broadcast BeforeTransactionCommit])
        | None \<Rightarrow>
           (let (failed, calls) =
              (case session r of
                 None \<Rightarrow> (None, [])
               | Some sid \<Rightarrow>
                   (case session_commitTransaction w sid of
                      Some e \<Rightarrow> (Some e, [SessionCommitTransaction sid])
                    | None \<Rightarrow>
                        (thrown_by (session_endSession w sid),
                         [SessionCommitTransaction sid, SessionEndSession sid])))
            in
            (case failed of
               Some e \<Rightarrow> (Rejected e, r, Broadcast BeforeTransactionCommit # calls)
             | None \<Rightarrow>
                let r1 = r\<lparr>isTransactionActive := False, session := None\<rparr> in
                (case broadcast w AfterTransactionCommit of
                   Some e \<Rightarrow>
                     (Rejected e, r1,
                      Broadcast BeforeTransactionCommit # calls
                        @ [Broadcast AfterTransactionCommit])
                 | None \<Rightarrow>
                     (Fulfilled (), r1,
                      Broadcast BeforeTransactionCommit # calls
                        @ [Broadcast AfterTransactionCommit, LogQuery ''COMMIT''])))))"

text \<open>\<^verbatim>\<open>rollbackTransaction\<close>: as the commit, with \<^verbatim>\<open>abortTransaction\<close> and its own events.\<close>

definition rollbackTransaction :: "world \<Rightarrow> runner \<Rightarrow> unit outcome" where
  "rollbackTransaction w r =
     (if \<not> enableTransactions r then (Fulfilled (), r, [])
      else if \<not> isTransactionActive r then (Rejected TransactionNotStartedError, r, [])
      else
        case broadcast w BeforeTransactionRollback of
          Some e \<Rightarrow> (Rejected e, r, [Broadcast BeforeTransactionRollback])
        | None \<Rightarrow>
           (let (failed, calls) =
              (case session r of
                 None \<Rightarrow> (None, [])
               | Some sid \<Rightarrow>
                   (case session_abortTransaction w sid of
                      Some e \<Rightarrow> (Some e, [SessionAbortTransaction sid])
                    | None \<Rightarrow>
                        (thrown_by (session_endSession w sid),
                         [SessionAbortTransaction sid, SessionEndSession sid])))
            in
            (case failed of
               Some e \<Rightarrow> (Rejected e, r, Broadcast BeforeTransactionRollback # calls)
             | None \<Rightarrow>
                let r1 = r\<lparr>isTransactionActive := False, session := None\<rparr> in
                (case broadcast w AfterTransactionRollback of
                   Some e \<Rightarrow>
                     (Rejected e, r1,
                      Broadcast BeforeTransactionRollback # calls
                        @ [Broadcast AfterTransactionRollback])
                 | None \<Rightarrow>
                     (Fulfilled (), r1,
                      Broadcast BeforeTransactionRollback # calls
                        @ [Broadcast AfterTransactionRollback, LogQuery ''ROLLBACK''])))))"

text \<open>
  A history of the runner: transaction calls in order, each with the world it ran in.
  The state after a history is the state a caller can observe; a call that fails still
  leaves its state behind.
\<close>

datatype transaction_call = Start | Commit | Rollback

fun transaction_step :: "runner \<Rightarrow> transaction_call \<times> world \<Rightarrow> runner" where
  "transaction_step r (Start, w) = runner_of (startTransaction w r)"
| "transaction_step r (Commit, w) = runner_of (commitTransaction w r)"
| "transaction_step r (Rollback, w) = runner_of (rollbackTransaction w r)"

definition after_calls :: "runner \<Rightarrow> (transaction_call \<times> world) list \<Rightarrow> runner" where
  "after_calls r history = foldl transaction_step r history"

text \<open>A world in which every collaborator succeeds; sessions are numbered \<open>n\<close>.\<close>

definition quiet_world :: "client_session \<Rightarrow> world" where
  "quiet_world n =
     \<lparr> broadcast = (\<lambda>_. None), startSession = Inr n,
       session_startTransaction = (\<lambda>_. None), session_commitTransaction = (\<lambda>_. None),
       session_abortTransaction = (\<lambda>_. None), session_endSession = (\<lambda>_. Completes),
       logQuery = (\<lambda>_. None), collection = (\<lambda>_. Inr JUndefined),
       db_dropDatabase = (\<lambda>_. None), db_dropCollection = (\<lambda>_ _. None) \<rparr>"

subsection \<open>Operations handed on to the collection\<close>

text \<open>
  Each of these methods calls one method of \<^verbatim>\<open>this.getCollection(collectionName)\<close> and returns
  what it returns. The parameters are the method's own, in order. An \<^verbatim>\<open>options\<close> parameter
  is \<open>None\<close> when the caller leaves it \<^verbatim>\<open>undefined\<close>, and otherwise the properties of the
  object passed.
\<close>

type_synonym options = "(string \<times> jsval) list option"

text \<open>\<^verbatim>\<open>query || {}\<close>, for a query that is an object or \<^verbatim>\<open>undefined\<close>.\<close>

definition or_empty :: "jsval \<Rightarrow> jsval" where
  "or_empty query = (if query = JUndefined then JObject [] else query)"

text \<open>An \<^verbatim>\<open>options\<close> argument handed on as it came.\<close>

definition as_given :: "options \<Rightarrow> jsval" where
  "as_given options = (case options of None \<Rightarrow> JUndefined | Some ps \<Rightarrow> JObject ps)"

text \<open>
  \<^verbatim>\<open>{ ...options, session: this.session }\<close>: the properties of \<^verbatim>\<open>options\<close> (none when it is
  \<^verbatim>\<open>undefined\<close>), with the property \<^verbatim>\<open>session\<close> set to the runner's session, which replaces
  a \<^verbatim>\<open>session\<close> property of \<^verbatim>\<open>options\<close> and is \<^verbatim>\<open>undefined\<close> when the runner has none.
\<close>

definition session_value :: "runner \<Rightarrow> jsval" where
  "session_value r = (case session r of None \<Rightarrow> JUndefined | Some s \<Rightarrow> JSession s)"

definition with_session :: "runner \<Rightarrow> options \<Rightarrow> jsval" where
  "with_session r options =
     JObject (AList.update ''session'' (session_value r)
       (case options of None \<Rightarrow> [] | Some ps \<Rightarrow> ps))"

text \<open>
  \<^verbatim>\<open>getCollection\<close>, together with the method called on the collection it returns, the
  arguments before the options, and the options argument if the call site has one.
\<close>

definition getCollection ::
  "runner \<Rightarrow> string \<Rightarrow> string \<Rightarrow> jsval list \<Rightarrow> jsval option \<Rightarrow> client_call" where
  "getCollection r collectionName method args opts =
     \<lparr> call_db = database r, call_collection = collectionName, call_method = method,
       call_args = args, call_options = opts \<rparr>"

text \<open>
  \<open>awaited\<close> is \<^verbatim>\<open>return await call\<close> in an \<^verbatim>\<open>async\<close> method and \<open>direct\<close> is
  \<^verbatim>\<open>return call\<close> in a method that is not: the one call is made, and its result or its
  failure is the method's, unchanged. The runner is not modified.
\<close>

definition awaited :: "world \<Rightarrow> runner \<Rightarrow> client_call \<Rightarrow> jsval outcome" where
  "awaited w r c =
     ((case collection w c of Inl e \<Rightarrow> Rejected e | Inr v \<Rightarrow> Fulfilled v), r, [CollectionCall c])"

definition direct :: "world \<Rightarrow> runner \<Rightarrow> client_call \<Rightarrow> jsval outcome" where
  "direct w r c =
     ((case collection w c of Inl e \<Rightarrow> Thrown e | Inr v \<Rightarrow> Returned v), r, [CollectionCall c])"

text \<open>
  The methods, in the order of the class. \<^verbatim>\<open>count\<close>, \<^verbatim>\<open>distinct\<close> and \<^verbatim>\<open>group\<close> are
  \<open>count_documents\<close>, \<open>distinct_values\<close> and \<open>group_by\<close> here.
\<close>

definition cursor :: "world \<Rightarrow> runner \<Rightarrow> string \<Rightarrow> jsval \<Rightarrow> jsval outcome" where
  "cursor w r collectionName query =
     direct w r
       (getCollection r collectionName ''find'' [or_empty query]
          None)"

definition aggregate :: "world \<Rightarrow> runner \<Rightarrow> string \<Rightarrow> jsval \<Rightarrow> options \<Rightarrow> jsval outcome" where
  "aggregate w r collectionName pipeline options =
     direct w r
       (getCollection r collectionName ''aggregate'' [pipeline]
          (Some (with_session r options)))"

definition bulkWrite :: "world \<Rightarrow> runner \<Rightarrow> string \<Rightarrow> jsval \<Rightarrow> options \<Rightarrow> jsval outcome" where
  "bulkWrite w r collectionName operations options =
     awaited w r
       (getCollection r collectionName ''bulkWrite'' [operations]
          (Some (with_session r options)))"

definition count_documents :: "world \<Rightarrow> runner \<Rightarrow> string \<Rightarrow> jsval \<Rightarrow> options \<Rightarrow> jsval outcome" where
  "count_documents w r collectionName query options =
     awaited w r
       (getCollection r collectionName ''countDocuments'' [or_empty query]
          (Some (with_session r options)))"

definition createCollectionIndex :: "world \<Rightarrow> runner \<Rightarrow> string \<Rightarrow> jsval \<Rightarrow> options \<Rightarrow> jsval outcome" where
  "createCollectionIndex w r collectionName fieldOrSpec options =
     awaited w r
       (getCollection r collectionName ''createIndex'' [fieldOrSpec]
          (Some (with_session r options)))"

definition createCollectionIndexes :: "world \<Rightarrow> runner \<Rightarrow> string \<Rightarrow> jsval \<Rightarrow> jsval outcome" where
  "createCollectionIndexes w r collectionName indexSpecs =
     awaited w r
       (getCollection r collectionName ''createIndexes'' [indexSpecs]
          None)"

definition deleteMany :: "world \<Rightarrow> runner \<Rightarrow> string \<Rightarrow> jsval \<Rightarrow> options \<Rightarrow> jsval outcome" where
  "deleteMany w r collectionName query options =
     awaited w r
       (getCollection r collectionName ''deleteMany'' [query]
          (Some (with_session r options)))"

definition deleteOne :: "world \<Rightarrow> runner \<Rightarrow> string \<Rightarrow> jsval \<Rightarrow> options \<Rightarrow> jsval outcome" where
  "deleteOne w r collectionName query options =
     awaited w r
       (getCollection r collectionName ''deleteOne'' [query]
          (Some (with_session r options)))"

definition distinct_values :: "world \<Rightarrow> runner \<Rightarrow> string \<Rightarrow> jsval \<Rightarrow> jsval \<Rightarrow> options \<Rightarrow> jsval outcome" where
  "distinct_values w r collectionName key query options =
     awaited w r
       (getCollection r collectionName ''distinct'' [key, query]
          (Some (with_session r options)))"

definition dropCollectionIndex :: "world \<Rightarrow> runner \<Rightarrow> string \<Rightarrow> jsval \<Rightarrow> options \<Rightarrow> jsval outcome" where
  "dropCollectionIndex w r collectionName indexName options =
     awaited w r
       (getCollection r collectionName ''dropIndex'' [indexName]
          (Some (with_session r options)))"

definition dropCollectionIndexes :: "world \<Rightarrow> runner \<Rightarrow> string \<Rightarrow> jsval outcome" where
  "dropCollectionIndexes w r collectionName =
     awaited w r
       (getCollection r collectionName ''dropIndexes'' []
          None)"

definition findOneAndDelete :: "world \<Rightarrow> runner \<Rightarrow> string \<Rightarrow> jsval \<Rightarrow> options \<Rightarrow> jsval outcome" where
  "findOneAndDelete w r collectionName query options =
     awaited w r
       (getCollection r collectionName ''findOneAndDelete'' [query]
          (Some (with_session r options)))"

definition findOneAndReplace :: "world \<Rightarrow> runner \<Rightarrow> string \<Rightarrow> jsval \<Rightarrow> jsval \<Rightarrow> options \<Rightarrow> jsval outcome" where
  "findOneAndReplace w r collectionName query replacement options =
     awaited w r
       (getCollection r collectionName ''findOneAndReplace'' [query, replacement]
          (Some (with_session r options)))"

definition findOneAndUpdate :: "world \<Rightarrow> runner \<Rightarrow> string \<Rightarrow> jsval \<Rightarrow> jsval \<Rightarrow> options \<Rightarrow> jsval outcome" where
  "findOneAndUpdate w r collectionName query update options =
     awaited w r
       (getCollection r collectionName ''findOneAndUpdate'' [query, update]
          (Some (with_session r options)))"

definition geoHaystackSearch :: "world \<Rightarrow> runner \<Rightarrow> string \<Rightarrow> jsval \<Rightarrow> jsval \<Rightarrow> options \<Rightarrow> jsval outcome" where
  "geoHaystackSearch w r collectionName x y options =
     awaited w r
       (getCollection r collectionName ''geoHaystackSearch'' [x, y]
          (Some (as_given options)))"

definition geoNear :: "world \<Rightarrow> runner \<Rightarrow> string \<Rightarrow> jsval \<Rightarrow> jsval \<Rightarrow> options \<Rightarrow> jsval outcome" where
  "geoNear w r collectionName x y options =
     awaited w r
       (getCollection r collectionName ''geoNear'' [x, y]
          (Some (as_given options)))"

definition group_by :: "world \<Rightarrow> runner \<Rightarrow> string \<Rightarrow> jsval \<Rightarrow> jsval \<Rightarrow> jsval \<Rightarrow> jsval \<Rightarrow> jsval \<Rightarrow> jsval \<Rightarrow> options \<Rightarrow> jsval outcome" where
  "group_by w r collectionName keys condition initial reduce finalize command options =
     awaited w r
       (getCollection r collectionName ''group'' [keys, condition, initial, reduce, finalize, command]
          (Some (with_session r options)))"

definition collectionIndexes :: "world \<Rightarrow> runner \<Rightarrow> string \<Rightarrow> jsval outcome" where
  "collectionIndexes w r collectionName =
     awaited w r
       (getCollection r collectionName ''indexes'' []
          None)"

definition collectionIndexExists :: "world \<Rightarrow> runner \<Rightarrow> string \<Rightarrow> jsval \<Rightarrow> jsval outcome" where
  "collectionIndexExists w r collectionName indexes =
     awaited w r
       (getCollection r collectionName ''indexExists'' [indexes]
          None)"

definition collectionIndexInformation :: "world \<Rightarrow> runner \<Rightarrow> string \<Rightarrow> options \<Rightarrow> jsval outcome" where
  "collectionIndexInformation w r collectionName options =
     awaited w r
       (getCollection r collectionName ''indexInformation'' []
          (Some (as_given options)))"

definition initializeOrderedBulkOp :: "world \<Rightarrow> runner \<Rightarrow> string \<Rightarrow> options \<Rightarrow> jsval outcome" where
  "initializeOrderedBulkOp w r collectionName options =
     direct w r
       (getCollection r collectionName ''initializeOrderedBulkOp'' []
          (Some (with_session r options)))"

definition initializeUnorderedBulkOp :: "world \<Rightarrow> runner \<Rightarrow> string \<Rightarrow> options \<Rightarrow> jsval outcome" where
  "initializeUnorderedBulkOp w r collectionName options =
     direct w r
       (getCollection r collectionName ''initializeUnorderedBulkOp'' []
          (Some (with_session r options)))"

definition insertMany :: "world \<Rightarrow> runner \<Rightarrow> string \<Rightarrow> jsval \<Rightarrow> options \<Rightarrow> jsval outcome" where
  "insertMany w r collectionName docs options =
     awaited w r
       (getCollection r collectionName ''insertMany'' [docs]
          (Some (with_session r options)))"

definition insertOne :: "world \<Rightarrow> runner \<Rightarrow> string \<Rightarrow> jsval \<Rightarrow> options \<Rightarrow> jsval outcome" where
  "insertOne w r collectionName doc options =
     awaited w r
       (getCollection r collectionName ''insertOne'' [doc]
          (Some (with_session r options)))"

definition isCapped :: "world \<Rightarrow> runner \<Rightarrow> string \<Rightarrow> jsval outcome" where
  "isCapped w r collectionName =
     awaited w r
       (getCollection r collectionName ''isCapped'' []
          None)"

definition listCollectionIndexes :: "world \<Rightarrow> runner \<Rightarrow> string \<Rightarrow> options \<Rightarrow> jsval outcome" where
  "listCollectionIndexes w r collectionName options =
     direct w r
       (getCollection r collectionName ''listIndexes'' []
          (Some (with_session r options)))"

definition mapReduce :: "world \<Rightarrow> runner \<Rightarrow> string \<Rightarrow> jsval \<Rightarrow> jsval \<Rightarrow> options \<Rightarrow> jsval outcome" where
  "mapReduce w r collectionName mapf reduce options =
     awaited w r
       (getCollection r collectionName ''mapReduce'' [mapf, reduce]
          (Some (with_session r options)))"

definition parallelCollectionScan :: "world \<Rightarrow> runner \<Rightarrow> string \<Rightarrow> options \<Rightarrow> jsval outcome" where
  "parallelCollectionScan w r collectionName options =
     awaited w r
       (getCollection r collectionName ''parallelCollectionScan'' []
          (Some (with_session r options)))"

definition reIndex :: "world \<Rightarrow> runner \<Rightarrow> string \<Rightarrow> jsval outcome" where
  "reIndex w r collectionName =
     awaited w r
       (getCollection r collectionName ''reIndex'' []
          None)"

definition rename :: "world \<Rightarrow> runner \<Rightarrow> string \<Rightarrow> jsval \<Rightarrow> options \<Rightarrow> jsval outcome" where
  "rename w r collectionName newName options =
     awaited w r
       (getCollection r collectionName ''rename'' [newName]
          (Some (as_given options)))"

definition replaceOne :: "world \<Rightarrow> runner \<Rightarrow> string \<Rightarrow> jsval \<Rightarrow> jsval \<Rightarrow> options \<Rightarrow> jsval outcome" where
  "replaceOne w r collectionName query doc options =
     awaited w r
       (getCollection r collectionName ''replaceOne'' [query, doc]
          (Some (with_session r options)))"

definition stats :: "world \<Rightarrow> runner \<Rightarrow> string \<Rightarrow> options \<Rightarrow> jsval outcome" where
  "stats w r collectionName options =
     awaited w r
       (getCollection r collectionName ''stats'' []
          (Some (as_given options)))"

definition watch :: "world \<Rightarrow> runner \<Rightarrow> string \<Rightarrow> jsval \<Rightarrow> options \<Rightarrow> jsval outcome" where
  "watch w r collectionName pipeline options =
     direct w r
       (getCollection r collectionName ''watch'' [pipeline]
          (Some (with_session r options)))"

definition updateMany :: "world \<Rightarrow> runner \<Rightarrow> string \<Rightarrow> jsval \<Rightarrow> jsval \<Rightarrow> options \<Rightarrow> jsval outcome" where
  "updateMany w r collectionName query update options =
     awaited w r
       (getCollection r collectionName ''updateMany'' [query, update]
          (Some (with_session r options)))"

definition updateOne :: "world \<Rightarrow> runner \<Rightarrow> string \<Rightarrow> jsval \<Rightarrow> jsval \<Rightarrow> options \<Rightarrow> jsval outcome" where
  "updateOne w r collectionName query update options =
     awaited w r
       (getCollection r collectionName ''updateOne'' [query, update]
          (Some (with_session r options)))"

text \<open>
  The session each call on a collection or on the database carries in its options, if
  any, call by call along a trace.
\<close>

definition session_in :: "jsval option \<Rightarrow> client_session option" where
  "session_in opts =
     (case opts of
        Some (JObject ps) \<Rightarrow>
          (case map_of ps ''session'' of Some (JSession s) \<Rightarrow> Some s | _ \<Rightarrow> None)
      | _ \<Rightarrow> None)"

definition forwarded_session :: "client_call \<Rightarrow> client_session option" where
  "forwarded_session c = session_in (call_options c)"

fun forwarded_sessions :: "effect list \<Rightarrow> client_session option list" where
  "forwarded_sessions [] = []"
| "forwarded_sessions (CollectionCall c # es) = forwarded_session c # forwarded_sessions es"
| "forwarded_sessions (DbDropDatabase _ opts # es) = session_in opts # forwarded_sessions es"
| "forwarded_sessions (DbDropCollection _ _ opts # es) = session_in opts # forwarded_sessions es"
| "forwarded_sessions (_ # es) = forwarded_sessions es"

subsection \<open>Clearing the database and a collection\<close>

text \<open>
  \<^verbatim>\<open>clearDatabase\<close> awaits \<^verbatim>\<open>databaseConnection.db(database).dropDatabase()\<close> and
  \<^verbatim>\<open>clearTable\<close> awaits \<^verbatim>\<open>.dropCollection(collectionName)\<close>; neither passes options.
\<close>

definition clearDatabase :: "world \<Rightarrow> runner \<Rightarrow> unit outcome" where
  "clearDatabase w r =
     ((case db_dropDatabase w (database r) of Some e \<Rightarrow> Rejected e | None \<Rightarrow> Fulfilled ()),
      r, [DbDropDatabase (database r) None])"

definition clearTable :: "world \<Rightarrow> runner \<Rightarrow> string \<Rightarrow> unit outcome" where
  "clearTable w r collectionName =
     ((case db_dropCollection w (database r) collectionName of
         Some e \<Rightarrow> Rejected e | None \<Rightarrow> Fulfilled ()),
      r, [DbDropCollection (database r) collectionName None])"

subsection \<open>Operations the driver does not support\<close>

text \<open>
  The body of each of these methods is a single \<^verbatim>\<open>throw new TypeORMError(message)\<close>. In a
  method declared \<^verbatim>\<open>async\<close> the throw rejects the promise the call returns; in the others
  (\<^verbatim>\<open>query\<close>, \<^verbatim>\<open>stream\<close> and four of the SQL memory methods) it reaches the caller as an
  exception. The parameters are left out: no body reads them.
\<close>

definition query :: "runner \<Rightarrow> jsval outcome" where
  "query r =
     (Thrown (TypeORMError
        ''Executing SQL query is not supported by MongoDB driver.''), r, [])"

definition stream :: "runner \<Rightarrow> jsval outcome" where
  "stream r =
     (Thrown (TypeORMError
        ''Stream is not supported by MongoDB driver. Use watch instead.''), r, [])"

definition getDatabases :: "runner \<Rightarrow> jsval outcome" where
  "getDatabases r =
     (Rejected (TypeORMError
        ''Schema update queries are not supported by MongoDB driver.''), r, [])"

definition getSchemas :: "runner \<Rightarrow> jsval outcome" where
  "getSchemas r =
     (Rejected (TypeORMError
        ''Schema update queries are not supported by MongoDB driver.''), r, [])"

definition getTable :: "runner \<Rightarrow> jsval outcome" where
  "getTable r =
     (Rejected (TypeORMError
        ''Schema update queries are not supported by MongoDB driver.''), r, [])"

definition getTables :: "runner \<Rightarrow> jsval outcome" where
  "getTables r =
     (Rejected (TypeORMError
        ''Schema update queries are not supported by MongoDB driver.''), r, [])"

definition getView :: "runner \<Rightarrow> jsval outcome" where
  "getView r =
     (Rejected (TypeORMError
        ''Schema update queries are not supported by MongoDB driver.''), r, [])"

definition getViews :: "runner \<Rightarrow> jsval outcome" where
  "getViews r =
     (Rejected (TypeORMError
        ''Schema update queries are not supported by MongoDB driver.''), r, [])"

definition hasDatabase :: "runner \<Rightarrow> jsval outcome" where
  "hasDatabase r =
     (Rejected (TypeORMError
        ''Check database queries are not supported by MongoDB driver.''), r, [])"

definition getCurrentDatabase :: "runner \<Rightarrow> jsval outcome" where
  "getCurrentDatabase r =
     (Rejected (TypeORMError
        ''Check database queries are not supported by MongoDB driver.''), r, [])"

definition hasSchema :: "runner \<Rightarrow> jsval outcome" where
  "hasSchema r =
     (Rejected (TypeORMError
        ''Check schema queries are not supported by MongoDB driver.''), r, [])"

definition getCurrentSchema :: "runner \<Rightarrow> jsval outcome" where
  "getCurrentSchema r =
     (Rejected (TypeORMError
        ''Check schema queries are not supported by MongoDB driver.''), r, [])"

definition hasTable :: "runner \<Rightarrow> jsval outcome" where
  "hasTable r =
     (Rejected (TypeORMError
        ''Check schema queries are not supported by MongoDB driver.''), r, [])"

definition hasColumn :: "runner \<Rightarrow> jsval outcome" where
  "hasColumn r =
     (Rejected (TypeORMError
        ''Schema update queries are not supported by MongoDB driver.''), r, [])"

definition createDatabase :: "runner \<Rightarrow> jsval outcome" where
  "createDatabase r =
     (Rejected (TypeORMError
        ''Database create queries are not supported by MongoDB driver.''), r, [])"

definition dropDatabase :: "runner \<Rightarrow> jsval outcome" where
  "dropDatabase r =
     (Rejected (TypeORMError
        ''Database drop queries are not supported by MongoDB driver.''), r, [])"

definition createSchema :: "runner \<Rightarrow> jsval outcome" where
  "createSchema r =
     (Rejected (TypeORMError
        ''Schema create queries are not supported by MongoDB driver.''), r, [])"

definition dropSchema :: "runner \<Rightarrow> jsval outcome" where
  "dropSchema r =
     (Rejected (TypeORMError
        ''Schema drop queries are not supported by MongoDB driver.''), r, [])"

definition createTable :: "runner \<Rightarrow> jsval outcome" where
  "createTable r =
     (Rejected (TypeORMError
        ''Schema update queries are not supported by MongoDB driver.''), r, [])"

definition dropTable :: "runner \<Rightarrow> jsval outcome" where
  "dropTable r =
     (Rejected (TypeORMError
        ''Schema update queries are not supported by MongoDB driver.''), r, [])"

definition createView :: "runner \<Rightarrow> jsval outcome" where
  "createView r =
     (Rejected (TypeORMError
        ''Schema update queries are not supported by MongoDB driver.''), r, [])"

definition dropView :: "runner \<Rightarrow> jsval outcome" where
  "dropView r =
     (Rejected (TypeORMError
        ''Schema update queries are not supported by MongoDB driver.''), r, [])"

definition renameTable :: "runner \<Rightarrow> jsval outcome" where
  "renameTable r =
     (Rejected (TypeORMError
        ''Schema update queries are not supported by MongoDB driver.''), r, [])"

definition addColumn :: "runner \<Rightarrow> jsval outcome" where
  "addColumn r =
     (Rejected (TypeORMError
        ''Schema update queries are not supported by MongoDB driver.''), r, [])"

definition addColumns :: "runner \<Rightarrow> jsval outcome" where
  "addColumns r =
     (Rejected (TypeORMError
        ''Schema update queries are not supported by MongoDB driver.''), r, [])"

definition renameColumn :: "runner \<Rightarrow> jsval outcome" where
  "renameColumn r =
     (Rejected (TypeORMError
        ''Schema update queries are not supported by MongoDB driver.''), r, [])"

definition changeColumn :: "runner \<Rightarrow> jsval outcome" where
  "changeColumn r =
     (Rejected (TypeORMError
        ''Schema update queries are not supported by MongoDB driver.''), r, [])"

definition changeColumns :: "runner \<Rightarrow> jsval outcome" where
  "changeColumns r =
     (Rejected (TypeORMError
        ''Schema update queries are not supported by MongoDB driver.''), r, [])"

definition dropColumn :: "runner \<Rightarrow> jsval outcome" where
  "dropColumn r =
     (Rejected (TypeORMError
        ''Schema update queries are not supported by MongoDB driver.''), r, [])"

definition dropColumns :: "runner \<Rightarrow> jsval outcome" where
  "dropColumns r =
     (Rejected (TypeORMError
        ''Schema update queries are not supported by MongoDB driver.''), r, [])"

definition createPrimaryKey :: "runner \<Rightarrow> jsval outcome" where
  "createPrimaryKey r =
     (Rejected (TypeORMError
        ''Schema update queries are not supported by MongoDB driver.''), r, [])"

definition updatePrimaryKeys :: "runner \<Rightarrow> jsval outcome" where
  "updatePrimaryKeys r =
     (Rejected (TypeORMError
        ''Schema update queries are not supported by MongoDB driver.''), r, [])"

definition dropPrimaryKey :: "runner \<Rightarrow> jsval outcome" where
  "dropPrimaryKey r =
     (Rejected (TypeORMError
        ''Schema update queries are not supported by MongoDB driver.''), r, [])"

definition createUniqueConstraint :: "runner \<Rightarrow> jsval outcome" where
  "createUniqueConstraint r =
     (Rejected (TypeORMError
        ''Schema update queries are not supported by MongoDB driver.''), r, [])"

definition createUniqueConstraints :: "runner \<Rightarrow> jsval outcome" where
  "createUniqueConstraints r =
     (Rejected (TypeORMError
        ''Schema update queries are not supported by MongoDB driver.''), r, [])"

definition dropUniqueConstraint :: "runner \<Rightarrow> jsval outcome" where
  "dropUniqueConstraint r =
     (Rejected (TypeORMError
        ''Schema update queries are not supported by MongoDB driver.''), r, [])"

definition dropUniqueConstraints :: "runner \<Rightarrow> jsval outcome" where
  "dropUniqueConstraints r =
     (Rejected (TypeORMError
        ''Schema update queries are not supported by MongoDB driver.''), r, [])"

definition createCheckConstraint :: "runner \<Rightarrow> jsval outcome" where
  "createCheckConstraint r =
     (Rejected (TypeORMError
        ''Schema update queries are not supported by MongoDB driver.''), r, [])"

definition createCheckConstraints :: "runner \<Rightarrow> jsval outcome" where
  "createCheckConstraints r =
     (Rejected (TypeORMError
        ''Schema update queries are not supported by MongoDB driver.''), r, [])"

definition dropCheckConstraint :: "runner \<Rightarrow> jsval outcome" where
  "dropCheckConstraint r =
     (Rejected (TypeORMError
        ''Schema update queries are not supported by MongoDB driver.''), r, [])"

definition dropCheckConstraints :: "runner \<Rightarrow> jsval outcome" where
  "dropCheckConstraints r =
     (Rejected (TypeORMError
        ''Schema update queries are not supported by MongoDB driver.''), r, [])"

definition createExclusionConstraint :: "runner \<Rightarrow> jsval outcome" where
  "createExclusionConstraint r =
     (Rejected (TypeORMError
        ''Schema update queries are not supported by MongoDB driver.''), r, [])"

definition createExclusionConstraints :: "runner \<Rightarrow> jsval outcome" where
  "createExclusionConstraints r =
     (Rejected (TypeORMError
        ''Schema update queries are not supported by MongoDB driver.''), r, [])"

definition dropExclusionConstraint :: "runner \<Rightarrow> jsval outcome" where
  "dropExclusionConstraint r =
     (Rejected (TypeORMError
        ''Schema update queries are not supported by MongoDB driver.''), r, [])"

definition dropExclusionConstraints :: "runner \<Rightarrow> jsval outcome" where
  "dropExclusionConstraints r =
     (Rejected (TypeORMError
        ''Schema update queries are not supported by MongoDB driver.''), r, [])"

definition createForeignKey :: "runner \<Rightarrow> jsval outcome" where
  "createForeignKey r =
     (Rejected (TypeORMError
        ''Schema update queries are not supported by MongoDB driver.''), r, [])"

definition createForeignKeys :: "runner \<Rightarrow> jsval outcome" where
  "createForeignKeys r =
     (Rejected (TypeORMError
        ''Schema update queries are not supported by MongoDB driver.''), r, [])"

definition dropForeignKey :: "runner \<Rightarrow> jsval outcome" where
  "dropForeignKey r =
     (Rejected (TypeORMError
        ''Schema update queries are not supported by MongoDB driver.''), r, [])"

definition dropForeignKeys :: "runner \<Rightarrow> jsval outcome" where
  "dropForeignKeys r =
     (Rejected (TypeORMError
        ''Schema update queries are not supported by MongoDB driver.''), r, [])"

definition createIndex :: "runner \<Rightarrow> jsval outcome" where
  "createIndex r =
     (Rejected (TypeORMError
        ''Schema update queries are not supported by MongoDB driver.''), r, [])"

definition createIndices :: "runner \<Rightarrow> jsval outcome" where
  "createIndices r =
     (Rejected (TypeORMError
        ''Schema update queries are not supported by MongoDB driver.''), r, [])"

definition dropIndex :: "runner \<Rightarrow> jsval outcome" where
  "dropIndex r =
     (Rejected (TypeORMError
        ''Schema update queries are not supported by MongoDB driver.''), r, [])"

definition dropIndices :: "runner \<Rightarrow> jsval outcome" where
  "dropIndices r =
     (Rejected (TypeORMError
        ''Schema update queries are not supported by MongoDB driver.''), r, [])"

definition enableSqlMemory :: "runner \<Rightarrow> jsval outcome" where
  "enableSqlMemory r =
     (Thrown (TypeORMError
        ''This operation is not supported by MongoDB driver.''), r, [])"

definition disableSqlMemory :: "runner \<Rightarrow> jsval outcome" where
  "disableSqlMemory r =
     (Thrown (TypeORMError
        ''This operation is not supported by MongoDB driver.''), r, [])"

definition clearSqlMemory :: "runner \<Rightarrow> jsval outcome" where
  "clearSqlMemory r =
     (Thrown (TypeORMError
        ''This operation is not supported by MongoDB driver.''), r, [])"

definition getMemorySql :: "runner \<Rightarrow> jsval outcome" where
  "getMemorySql r =
     (Thrown (TypeORMError
        ''This operation is not supported by MongoDB driver.''), r, [])"

definition executeMemoryUpSql :: "runner \<Rightarrow> jsval outcome" where
  "executeMemoryUpSql r =
     (Rejected (TypeORMError
        ''This operation is not supported by MongoDB driver.''), r, [])"

definition executeMemoryDownSql :: "runner \<Rightarrow> jsval outcome" where
  "executeMemoryDownSql r =
     (Rejected (TypeORMError
        ''This operation is not supported by MongoDB driver.''), r, [])"

text \<open>
  The methods above by what they are for and by how they are declared. \<^verbatim>\<open>query\<close> and
  \<^verbatim>\<open>stream\<close>, which execute SQL text, are not \<^verbatim>\<open>async\<close>.
\<close>

definition sql_text_operations :: "(runner \<Rightarrow> jsval outcome) list" where
  "sql_text_operations = [query, stream]"

text \<open>
  The methods that define, alter or drop a part of the schema: databases, schemas, tables,
  views, columns, primary keys, unique, check and exclusion constraints, foreign keys and
  indices. All are \<^verbatim>\<open>async\<close>.
\<close>

definition schema_operations :: "(runner \<Rightarrow> jsval outcome) list" where
  "schema_operations =
     [createDatabase, dropDatabase, createSchema, dropSchema, createTable,
      dropTable, createView, dropView, renameTable, addColumn, addColumns, renameColumn,
      changeColumn, changeColumns, dropColumn, dropColumns, createPrimaryKey,
      updatePrimaryKeys, dropPrimaryKey, createUniqueConstraint,
      createUniqueConstraints, dropUniqueConstraint, dropUniqueConstraints,
      createCheckConstraint, createCheckConstraints, dropCheckConstraint,
      dropCheckConstraints, createExclusionConstraint, createExclusionConstraints,
      dropExclusionConstraint, dropExclusionConstraints, createForeignKey,
      createForeignKeys, dropForeignKey, dropForeignKeys, createIndex, createIndices,
      dropIndex, dropIndices]"

text \<open>The methods that read the schema, all \<^verbatim>\<open>async\<close>.\<close>

definition schema_readers :: "(runner \<Rightarrow> jsval outcome) list" where
  "schema_readers =
     [getDatabases, getSchemas, getTable, getTables, getView, getViews, hasDatabase,
      getCurrentDatabase, hasSchema, getCurrentSchema, hasTable, hasColumn]"

text \<open>The SQL memory methods: four that are not \<^verbatim>\<open>async\<close>, and two that are.\<close>

definition sql_memory_operations :: "(runner \<Rightarrow> jsval outcome) list" where
  "sql_memory_operations = [enableSqlMemory, disableSqlMemory, clearSqlMemory, getMemorySql]"

definition sql_memory_executions :: "(runner \<Rightarrow> jsval outcome) list" where
  "sql_memory_executions = [executeMemoryUpSql, executeMemoryDownSql]"

text \<open>A completion that is an exception thrown to the caller during the call.\<close>

fun throws :: "'a completion \<Rightarrow> bool" where
  "throws (Thrown _) = True"
| "throws _ = False"

subsection \<open>The flag and the session together\<close>

text \<open>The runner holds a session exactly when \<^verbatim>\<open>isTransactionActive\<close> is set.\<close>

definition session_iff_active :: "runner \<Rightarrow> bool" where
  "session_iff_active r = ((session r \<noteq> None) = isTransactionActive r)"

text \<open>
  A step of a history in which, if it is a \<^verbatim>\<open>startTransaction\<close>, the first notification
  succeeds and \<^verbatim>\<open>startSession\<close> returns a session.
\<close>

definition session_created :: "transaction_call \<times> world \<Rightarrow> bool" where
  "session_created step =
     (case step of
        (Start, w) \<Rightarrow> broadcast w BeforeTransactionStart = None \<and> \<not> isl (startSession w)
      | _ \<Rightarrow> True)"

section \<open>Properties\<close>

subsection \<open>Auxiliary facts\<close>

lemma forwarded_with_session:
  "forwarded_session (getCollection r n m args (Some (with_session r opts))) = session r"
  by (simp add: forwarded_session_def session_in_def getCollection_def with_session_def
      session_value_def update_conv' split: option.splits)

lemma forwarded_awaited:
  "forwarded_sessions (effects_of (awaited w r c)) = [forwarded_session c]"
  by (simp add: awaited_def effects_of_def)

lemma forwarded_direct:
  "forwarded_sessions (effects_of (direct w r c)) = [forwarded_session c]"
  by (simp add: direct_def effects_of_def)

lemma start_keeps_enableTransactions:
  "enableTransactions (runner_of (startTransaction w r)) = enableTransactions r"
  by (simp add: startTransaction_def runner_of_def Let_def split: option.splits sum.splits)

lemma step_when_disabled:
  "\<not> enableTransactions r \<Longrightarrow> transaction_step r c = r"
  by (cases c; cases "fst c")
    (auto simp: startTransaction_def commitTransaction_def rollbackTransaction_def runner_of_def)

lemma after_calls_when_disabled:
  "\<not> enableTransactions r \<Longrightarrow> after_calls r history = r"
  unfolding after_calls_def by (induction history arbitrary: r) (simp_all add: step_when_disabled)

lemma commit_fulfilled_when_enabled:
  assumes "enableTransactions r" and "completion_of (commitTransaction w r) = Fulfilled ()"
  shows "runner_of (commitTransaction w r) = r\<lparr>isTransactionActive := False, session := None\<rparr>"
  using assms
  by (auto simp: commitTransaction_def completion_of_def runner_of_def Let_def
      split: if_splits option.splits prod.splits)

lemma rollback_fulfilled_when_enabled:
  assumes "enableTransactions r" and "completion_of (rollbackTransaction w r) = Fulfilled ()"
  shows "runner_of (rollbackTransaction w r) = r\<lparr>isTransactionActive := False, session := None\<rparr>"
  using assms
  by (auto simp: rollbackTransaction_def completion_of_def runner_of_def Let_def
      split: if_splits option.splits prod.splits)

lemma not_supported_text_1:
  "sublist ''not supported by MongoDB driver''
     ''Check database queries are not supported by MongoDB driver.''"
  by code_simp

lemma not_supported_text_2:
  "sublist ''not supported by MongoDB driver''
     ''Check schema queries are not supported by MongoDB driver.''"
  by code_simp

lemma not_supported_text_3:
  "sublist ''not supported by MongoDB driver''
     ''Database create queries are not supported by MongoDB driver.''"
  by code_simp

lemma not_supported_text_4:
  "sublist ''not supported by MongoDB driver''
     ''Database drop queries are not supported by MongoDB driver.''"
  by code_simp

lemma not_supported_text_5:
  "sublist ''not supported by MongoDB driver''
     ''Executing SQL query is not supported by MongoDB driver.''"
  by code_simp

lemma not_supported_text_6:
  "sublist ''not supported by MongoDB driver''
     ''Schema create queries are not supported by MongoDB driver.''"
  by code_simp

lemma not_supported_text_7:
  "sublist ''not supported by MongoDB driver''
     ''Schema drop queries are not supported by MongoDB driver.''"
  by code_simp

lemma not_supported_text_8:
  "sublist ''not supported by MongoDB driver''
     ''Schema update queries are not supported by MongoDB driver.''"
  by code_simp

lemma not_supported_text_9:
  "sublist ''not supported by MongoDB driver''
     ''Stream is not supported by MongoDB driver. Use watch instead.''"
  by code_simp

lemma not_supported_text_10:
  "sublist ''not supported by MongoDB driver''
     ''This operation is not supported by MongoDB driver.''"
  by code_simp

lemmas not_supported_texts =
  not_supported_text_1 not_supported_text_2 not_supported_text_3 not_supported_text_4 not_supported_text_5 not_supported_text_6 not_supported_text_7 not_supported_text_8 not_supported_text_9 not_supported_text_10

lemmas unsupported_defs =
  query_def stream_def getDatabases_def getSchemas_def getTable_def
  getTables_def getView_def getViews_def hasDatabase_def getCurrentDatabase_def
  hasSchema_def getCurrentSchema_def hasTable_def hasColumn_def createDatabase_def
  dropDatabase_def createSchema_def dropSchema_def createTable_def dropTable_def
  createView_def dropView_def renameTable_def addColumn_def addColumns_def
  renameColumn_def changeColumn_def changeColumns_def dropColumn_def dropColumns_def
  createPrimaryKey_def updatePrimaryKeys_def dropPrimaryKey_def createUniqueConstraint_def createUniqueConstraints_def
  dropUniqueConstraint_def dropUniqueConstraints_def createCheckConstraint_def createCheckConstraints_def dropCheckConstraint_def
  dropCheckConstraints_def createExclusionConstraint_def createExclusionConstraints_def dropExclusionConstraint_def dropExclusionConstraints_def
  createForeignKey_def createForeignKeys_def dropForeignKey_def dropForeignKeys_def createIndex_def
  createIndices_def dropIndex_def dropIndices_def enableSqlMemory_def disableSqlMemory_def
  clearSqlMemory_def getMemorySql_def executeMemoryUpSql_def executeMemoryDownSql_def

lemma commit_keeps_enableTransactions:
  "enableTransactions (runner_of (commitTransaction w r)) = enableTransactions r"
  by (simp add: commitTransaction_def runner_of_def Let_def split: option.splits prod.splits)

lemma rollback_keeps_enableTransactions:
  "enableTransactions (runner_of (rollbackTransaction w r)) = enableTransactions r"
  by (simp add: rollbackTransaction_def runner_of_def Let_def split: option.splits prod.splits)

lemma step_keeps_enableTransactions:
  "enableTransactions (transaction_step r c) = enableTransactions r"
  by (cases c; cases "fst c")
    (simp_all add: start_keeps_enableTransactions commit_keeps_enableTransactions
      rollback_keeps_enableTransactions)

lemma after_calls_keep_enableTransactions:
  "enableTransactions (after_calls r history) = enableTransactions r"
  unfolding after_calls_def
  by (induction history arbitrary: r) (simp_all add: step_keeps_enableTransactions)


text \<open>
  The flag and the session agree after every history in which no \<^verbatim>\<open>startTransaction\<close>
  fails before it has stored its session.
\<close>

lemma start_keeps_session_iff_active:
  assumes "session_iff_active r" and "session_created (Start, w)"
  shows "session_iff_active (runner_of (startTransaction w r))"
  using assms
  by (auto simp: session_iff_active_def session_created_def startTransaction_def runner_of_def
      Let_def split: option.splits sum.splits)

lemma commit_keeps_session_iff_active:
  assumes "session_iff_active r"
  shows "session_iff_active (runner_of (commitTransaction w r))"
  using assms
  by (auto simp: session_iff_active_def commitTransaction_def runner_of_def Let_def
      split: option.splits prod.splits)

lemma rollback_keeps_session_iff_active:
  assumes "session_iff_active r"
  shows "session_iff_active (runner_of (rollbackTransaction w r))"
  using assms
  by (auto simp: session_iff_active_def rollbackTransaction_def runner_of_def Let_def
      split: option.splits prod.splits)

lemma step_keeps_session_iff_active:
  assumes "session_iff_active r" and "session_created step"
  shows "session_iff_active (transaction_step r step)"
proof (cases step)
  case (Pair c w)
  with assms show ?thesis
    by (cases c)
      (simp_all add: start_keeps_session_iff_active commit_keeps_session_iff_active
        rollback_keeps_session_iff_active)
qed

lemma session_iff_active_after_calls:
  assumes "session_iff_active r" and "list_all session_created history"
  shows "session_iff_active (after_calls r history)"
  using assms unfolding after_calls_def
  by (induction history arbitrary: r) (simp_all add: step_keeps_session_iff_active)

lemma session_iff_active_initially: "session_iff_active (MongoQueryRunner enable db)"
  by (simp add: session_iff_active_def MongoQueryRunner_def)

subsection \<open>Handed-on operations and the session\<close>

text \<open>
  Claim C1, as the code has it. Each method that builds its options as
  \<^verbatim>\<open>{ ...options, session: this.session }\<close> makes one collection call, and the session that call
  carries in its options is the runner's session reference: the session when the runner
  holds one, none when it holds none, whatever the caller's options say. The methods are
  \<^verbatim>\<open>aggregate\<close>, \<^verbatim>\<open>bulkWrite\<close>, \<^verbatim>\<open>count\<close>, \<^verbatim>\<open>createCollectionIndex\<close>, \<^verbatim>\<open>deleteMany\<close>, \<^verbatim>\<open>deleteOne\<close>,
  \<^verbatim>\<open>distinct\<close>, \<^verbatim>\<open>dropCollectionIndex\<close>, the three \<^verbatim>\<open>findOneAnd...\<close>, \<^verbatim>\<open>group\<close>, the two bulk
  initialisers, \<^verbatim>\<open>insertMany\<close>, \<^verbatim>\<open>insertOne\<close>, \<^verbatim>\<open>listCollectionIndexes\<close>, \<^verbatim>\<open>mapReduce\<close>,
  \<^verbatim>\<open>parallelCollectionScan\<close>, \<^verbatim>\<open>replaceOne\<close>, \<^verbatim>\<open>watch\<close>, \<^verbatim>\<open>updateMany\<close> and \<^verbatim>\<open>updateOne\<close>.
\<close>

theorem session_spread_into_options:
  "forwarded_sessions (effects_of (aggregate w r name pipeline opts)) = [session r] \<and>
   forwarded_sessions (effects_of (bulkWrite w r name operations opts)) = [session r] \<and>
   forwarded_sessions (effects_of (count_documents w r name q opts)) = [session r] \<and>
   forwarded_sessions (effects_of (createCollectionIndex w r name fieldOrSpec opts)) = [session r] \<and>
   forwarded_sessions (effects_of (deleteMany w r name q opts)) = [session r] \<and>
   forwarded_sessions (effects_of (deleteOne w r name q opts)) = [session r] \<and>
   forwarded_sessions (effects_of (distinct_values w r name key q opts)) = [session r] \<and>
   forwarded_sessions (effects_of (dropCollectionIndex w r name indexName opts)) = [session r] \<and>
   forwarded_sessions (effects_of (findOneAndDelete w r name q opts)) = [session r] \<and>
   forwarded_sessions (effects_of (findOneAndReplace w r name q replacement opts)) = [session r] \<and>
   forwarded_sessions (effects_of (findOneAndUpdate w r name q upd opts)) = [session r] \<and>
   forwarded_sessions (effects_of (group_by w r name keys condition initial red finalize command opts)) = [session r] \<and>
   forwarded_sessions (effects_of (initializeOrderedBulkOp w r name opts)) = [session r] \<and>
   forwarded_sessions (effects_of (initializeUnorderedBulkOp w r name opts)) = [session r] \<and>
   forwarded_sessions (effects_of (insertMany w r name docs opts)) = [session r] \<and>
   forwarded_sessions (effects_of (insertOne w r name doc opts)) = [session r] \<and>
   forwarded_sessions (effects_of (listCollectionIndexes w r name opts)) = [session r] \<and>
   forwarded_sessions (effects_of (mapReduce w r name mapf red opts)) = [session r] \<and>
   forwarded_sessions (effects_of (parallelCollectionScan w r name opts)) = [session r] \<and>
   forwarded_sessions (effects_of (replaceOne w r name q doc opts)) = [session r] \<and>
   forwarded_sessions (effects_of (watch w r name pipeline opts)) = [session r] \<and>
   forwarded_sessions (effects_of (updateMany w r name q upd opts)) = [session r] \<and>
   forwarded_sessions (effects_of (updateOne w r name q upd opts)) = [session r]"
  by (simp add: aggregate_def bulkWrite_def count_documents_def createCollectionIndex_def deleteMany_def deleteOne_def distinct_values_def dropCollectionIndex_def findOneAndDelete_def findOneAndReplace_def findOneAndUpdate_def group_by_def initializeOrderedBulkOp_def initializeUnorderedBulkOp_def insertMany_def insertOne_def listCollectionIndexes_def mapReduce_def parallelCollectionScan_def replaceOne_def watch_def updateMany_def updateOne_def
      forwarded_awaited forwarded_direct forwarded_with_session)

text \<open>
  Claim C1 as stated fails: with a transaction started and its session held, \<^verbatim>\<open>stats\<close> and
  \<^verbatim>\<open>cursor\<close> call the collection with no session in the options.
\<close>

theorem stats_and_cursor_forward_no_session:
  "session (after_calls (MongoQueryRunner True ''test'') [(Start, quiet_world 7)]) = Some 7
   \<and> isTransactionActive (after_calls (MongoQueryRunner True ''test'') [(Start, quiet_world 7)])
   \<and> forwarded_sessions (effects_of (stats (quiet_world 7)
         (after_calls (MongoQueryRunner True ''test'') [(Start, quiet_world 7)])
         ''users'' None)) = [None]
   \<and> forwarded_sessions (effects_of (cursor (quiet_world 7)
         (after_calls (MongoQueryRunner True ''test'') [(Start, quiet_world 7)])
         ''users'' JUndefined)) = [None]"
  by (simp add: after_calls_def MongoQueryRunner_def quiet_world_def startTransaction_def
      runner_of_def effects_of_def stats_def cursor_def awaited_def direct_def
      forwarded_session_def session_in_def getCollection_def as_given_def)

subsection \<open>Unsupported operations\<close>

text \<open>
  Claim C2, as the code has it. \<^verbatim>\<open>query\<close> and \<^verbatim>\<open>stream\<close> (and the four SQL memory methods
  that are not \<^verbatim>\<open>async\<close>) throw to the caller, during the call, a \<^verbatim>\<open>TypeORMError\<close> whose
  message says that the operation is not supported by the driver. Every method that
  creates, drops, renames or changes a database, schema, table, view, column, primary
  key, constraint, foreign key or index (and every schema reader, and the two \<^verbatim>\<open>async\<close>
  SQL memory methods) returns a promise rejected with such an error; its \<^verbatim>\<open>throw\<close> runs
  before anything is awaited. None of them makes a call on any collaborator, and all
  leave the runner as it was.
\<close>

theorem unsupported_operations_fail:
  "(m \<in> set (sql_text_operations @ sql_memory_operations) \<longrightarrow>
      (\<exists>msg. completion_of (m r) = Thrown (TypeORMError msg)
         \<and> sublist ''not supported by MongoDB driver'' msg)
      \<and> runner_of (m r) = r \<and> effects_of (m r) = [])
   \<and> (m \<in> set (schema_operations @ schema_readers @ sql_memory_executions) \<longrightarrow>
      (\<exists>msg. completion_of (m r) = Rejected (TypeORMError msg)
         \<and> sublist ''not supported by MongoDB driver'' msg)
      \<and> runner_of (m r) = r \<and> effects_of (m r) = [])"
proof (intro conjI impI)
  assume "m \<in> set (sql_text_operations @ sql_memory_operations)"
  then have thrown: "(\<exists>msg. completion_of (m r) = Thrown (TypeORMError msg)
         \<and> sublist ''not supported by MongoDB driver'' msg)
      \<and> runner_of (m r) = r \<and> effects_of (m r) = []"
    unfolding sql_text_operations_def sql_memory_operations_def
    by (auto simp: unsupported_defs completion_of_def runner_of_def effects_of_def
        not_supported_texts)
  from thrown show "\<exists>msg. completion_of (m r) = Thrown (TypeORMError msg)
      \<and> sublist ''not supported by MongoDB driver'' msg" by (rule conjunct1)
  from thrown show "runner_of (m r) = r" by simp
  from thrown show "effects_of (m r) = []" by simp
next
  assume "m \<in> set (schema_operations @ schema_readers @ sql_memory_executions)"
  then have rejected: "(\<exists>msg. completion_of (m r) = Rejected (TypeORMError msg)
         \<and> sublist ''not supported by MongoDB driver'' msg)
      \<and> runner_of (m r) = r \<and> effects_of (m r) = []"
    unfolding schema_operations_def schema_readers_def sql_memory_executions_def
    by (auto simp: unsupported_defs completion_of_def runner_of_def effects_of_def
        not_supported_texts)
  from rejected show "\<exists>msg. completion_of (m r) = Rejected (TypeORMError msg)
      \<and> sublist ''not supported by MongoDB driver'' msg" by (rule conjunct1)
  from rejected show "runner_of (m r) = r" by simp
  from rejected show "effects_of (m r) = []" by simp
qed

theorem unsupported_operations_fail_witness:
  "query \<in> set (sql_text_operations @ sql_memory_operations)
   \<and> (\<exists>msg. completion_of (query (MongoQueryRunner True ''test''))
               = Thrown (TypeORMError msg)
          \<and> sublist ''not supported by MongoDB driver'' msg)
   \<and> runner_of (query (MongoQueryRunner True ''test'')) = MongoQueryRunner True ''test''
   \<and> effects_of (query (MongoQueryRunner True ''test'')) = []
   \<and> createTable \<in> set (schema_operations @ schema_readers @ sql_memory_executions)
   \<and> (\<exists>msg. completion_of (createTable (MongoQueryRunner True ''test''))
               = Rejected (TypeORMError msg)
          \<and> sublist ''not supported by MongoDB driver'' msg)
   \<and> runner_of (createTable (MongoQueryRunner True ''test'')) = MongoQueryRunner True ''test''
   \<and> effects_of (createTable (MongoQueryRunner True ''test'')) = []"
proof -
  have thrower: "query \<in> set (sql_text_operations @ sql_memory_operations)"
    by (simp add: sql_text_operations_def)
  have rejecter: "createTable \<in> set (schema_operations @ schema_readers @ sql_memory_executions)"
    by (simp add: schema_operations_def)
  show ?thesis
    using thrower rejecter
      unsupported_operations_fail [of query "MongoQueryRunner True ''test''"]
      unsupported_operations_fail [of createTable "MongoQueryRunner True ''test''"]
    by blast
qed

text \<open>
  Claim C2 as stated fails for the schema operations: \<^verbatim>\<open>createTable\<close> is \<^verbatim>\<open>async\<close>, so its
  error does not reach the caller as an exception during the call but as the rejection
  of the promise the call returns.
\<close>

theorem createTable_rejects_instead_of_throwing:
  "createTable \<in> set schema_operations
   \<and> failure (completion_of (createTable (MongoQueryRunner True ''test'')))
       = Some (TypeORMError ''Schema update queries are not supported by MongoDB driver.'')
   \<and> completion_of (createTable (MongoQueryRunner True ''test''))
       = Rejected (TypeORMError ''Schema update queries are not supported by MongoDB driver.'')
   \<and> \<not> throws (completion_of (createTable (MongoQueryRunner True ''test'')))"
  by (simp add: schema_operations_def createTable_def completion_of_def)

subsection \<open>The transaction flag and the session\<close>

text \<open>
  Claim C3 says that after any history of transaction calls, failed ones included, the
  runner holds a session exactly when \<^verbatim>\<open>isTransactionActive\<close> is set. The code breaks it:
  when \<^verbatim>\<open>startSession\<close> throws, \<^verbatim>\<open>startTransaction\<close> rejects with the flag left set and no
  session stored, although its handler for the notification before it does clear the flag.
\<close>

theorem start_session_failure_leaves_flag_set:
  "completion_of (startTransaction ((quiet_world 5)\<lparr>startSession := Inl (External 0)\<rparr>)
       (MongoQueryRunner True ''test'')) = Rejected (External 0)
   \<and> isTransactionActive (after_calls (MongoQueryRunner True ''test'')
         [(Start, (quiet_world 5)\<lparr>startSession := Inl (External 0)\<rparr>)])
   \<and> session (after_calls (MongoQueryRunner True ''test'')
         [(Start, (quiet_world 5)\<lparr>startSession := Inl (External 0)\<rparr>)]) = None
   \<and> \<not> session_iff_active (after_calls (MongoQueryRunner True ''test'')
         [(Start, (quiet_world 5)\<lparr>startSession := Inl (External 0)\<rparr>)])"
  by (simp add: after_calls_def MongoQueryRunner_def quiet_world_def startTransaction_def
      runner_of_def completion_of_def session_iff_active_def)

subsection \<open>Commit and rollback without a start\<close>

text \<open>
  Claim C4. With transactions enabled and the flag not set, \<^verbatim>\<open>commitTransaction\<close> and
  \<^verbatim>\<open>rollbackTransaction\<close> reject with \<^verbatim>\<open>TransactionNotStartedError\<close>; with transactions not
  enabled both are fulfilled. In either case the runner is unchanged and no collaborator
  is called.
\<close>

theorem commit_rollback_without_start:
  "(enableTransactions r \<and> \<not> isTransactionActive r \<longrightarrow>
      commitTransaction w r = (Rejected TransactionNotStartedError, r, [])
      \<and> rollbackTransaction w r = (Rejected TransactionNotStartedError, r, []))
   \<and> (\<not> enableTransactions r \<longrightarrow>
      commitTransaction w r = (Fulfilled (), r, [])
      \<and> rollbackTransaction w r = (Fulfilled (), r, []))"
  by (simp add: commitTransaction_def rollbackTransaction_def)

theorem commit_rollback_without_start_witness:
  "enableTransactions (MongoQueryRunner True ''test'')
   \<and> \<not> isTransactionActive (MongoQueryRunner True ''test'')
   \<and> commitTransaction (quiet_world 5) (MongoQueryRunner True ''test'')
       = (Rejected TransactionNotStartedError, MongoQueryRunner True ''test'', [])
   \<and> rollbackTransaction (quiet_world 5) (MongoQueryRunner True ''test'')
       = (Rejected TransactionNotStartedError, MongoQueryRunner True ''test'', [])
   \<and> \<not> enableTransactions (MongoQueryRunner False ''test'')
   \<and> commitTransaction (quiet_world 5) (MongoQueryRunner False ''test'')
       = (Fulfilled (), MongoQueryRunner False ''test'', [])
   \<and> rollbackTransaction (quiet_world 5) (MongoQueryRunner False ''test'')
       = (Fulfilled (), MongoQueryRunner False ''test'', [])"
  using commit_rollback_without_start [of "MongoQueryRunner True ''test''" "quiet_world 5"]
    commit_rollback_without_start [of "MongoQueryRunner False ''test''" "quiet_world 5"]
  by (simp add: MongoQueryRunner_def)

subsection \<open>Failure of the notification before the start\<close>

text \<open>
  Claim C5, as the code has it. With transactions enabled, when the
  \<^verbatim>\<open>BeforeTransactionStart\<close> notification fails, \<^verbatim>\<open>startTransaction\<close> rejects with that very
  failure, the flag is false afterwards, nothing but the notification was called (no
  session is created) and every other field, the session reference included, is as
  before. So the runner is exactly as before the call when the flag was not set then.
\<close>

theorem failed_before_start_notification:
  assumes "enableTransactions r" and "broadcast w BeforeTransactionStart = Some e"
  shows "startTransaction w r
           = (Rejected e, r\<lparr>isTransactionActive := False\<rparr>, [Broadcast BeforeTransactionStart])
         \<and> (\<not> isTransactionActive r \<longrightarrow> runner_of (startTransaction w r) = r)"
  using assms by (simp add: startTransaction_def runner_of_def)

theorem failed_before_start_notification_witness:
  "enableTransactions (MongoQueryRunner True ''test'')
   \<and> broadcast ((quiet_world 5)\<lparr>broadcast := (\<lambda>_. Some (External 0))\<rparr>) BeforeTransactionStart
       = Some (External 0)
   \<and> startTransaction ((quiet_world 5)\<lparr>broadcast := (\<lambda>_. Some (External 0))\<rparr>)
         (MongoQueryRunner True ''test'')
       = (Rejected (External 0), MongoQueryRunner True ''test'',
          [Broadcast BeforeTransactionStart])
   \<and> \<not> isTransactionActive (MongoQueryRunner True ''test'')
   \<and> runner_of (startTransaction ((quiet_world 5)\<lparr>broadcast := (\<lambda>_. Some (External 0))\<rparr>)
         (MongoQueryRunner True ''test'')) = MongoQueryRunner True ''test''"
  using failed_before_start_notification
    [of "MongoQueryRunner True ''test''" "(quiet_world 5)\<lparr>broadcast := (\<lambda>_. Some (External 0))\<rparr>"
        "External 0"]
  by (simp add: MongoQueryRunner_def quiet_world_def runner_of_def)

text \<open>
  Claim C5 as stated fails where a transaction is already active: the flag is cleared, so
  the runner is not as it was before the call.
\<close>

theorem failed_before_start_clears_active_flag:
  "enableTransactions (after_calls (MongoQueryRunner True ''test'') [(Start, quiet_world 5)])
   \<and> broadcast ((quiet_world 2)\<lparr>broadcast := (\<lambda>_. Some (External 0))\<rparr>) BeforeTransactionStart
       = Some (External 0)
   \<and> runner_of (startTransaction ((quiet_world 2)\<lparr>broadcast := (\<lambda>_. Some (External 0))\<rparr>)
         (after_calls (MongoQueryRunner True ''test'') [(Start, quiet_world 5)]))
       \<noteq> after_calls (MongoQueryRunner True ''test'') [(Start, quiet_world 5)]"
  by (simp add: after_calls_def MongoQueryRunner_def quiet_world_def startTransaction_def
      runner_of_def)

subsection \<open>After a successful call\<close>

text \<open>
  Claim C6. With transactions enabled, a \<^verbatim>\<open>startTransaction\<close> that is fulfilled leaves the
  flag set and a session stored. After any history of transaction calls on a new runner,
  a \<^verbatim>\<open>commitTransaction\<close> or \<^verbatim>\<open>rollbackTransaction\<close> that is fulfilled leaves the flag
  cleared and no session stored.
\<close>

theorem after_successful_calls:
  "(enableTransactions r \<and> completion_of (startTransaction w r) = Fulfilled () \<longrightarrow>
      isTransactionActive (runner_of (startTransaction w r))
      \<and> session (runner_of (startTransaction w r)) \<noteq> None)
   \<and> (r = after_calls (MongoQueryRunner enable db) history
        \<and> completion_of (commitTransaction w r) = Fulfilled () \<longrightarrow>
      \<not> isTransactionActive (runner_of (commitTransaction w r))
      \<and> session (runner_of (commitTransaction w r)) = None)
   \<and> (r = after_calls (MongoQueryRunner enable db) history
        \<and> completion_of (rollbackTransaction w r) = Fulfilled () \<longrightarrow>
      \<not> isTransactionActive (runner_of (rollbackTransaction w r))
      \<and> session (runner_of (rollbackTransaction w r)) = None)"
proof (intro conjI impI)
  assume "enableTransactions r \<and> completion_of (startTransaction w r) = Fulfilled ()"
  then have started: "\<exists>sid. runner_of (startTransaction w r)
      = r\<lparr>isTransactionActive := True, session := Some sid\<rparr>"
    by (auto simp: startTransaction_def completion_of_def runner_of_def Let_def
        split: option.splits sum.splits)
  from started show "isTransactionActive (runner_of (startTransaction w r))" by auto
  from started show "session (runner_of (startTransaction w r)) \<noteq> None" by auto
next
  assume a: "r = after_calls (MongoQueryRunner enable db) history
      \<and> completion_of (commitTransaction w r) = Fulfilled ()"
  from a have history: "r = after_calls (MongoQueryRunner enable db) history" by (rule conjunct1)
  from a have fulfilled: "completion_of (commitTransaction w r) = Fulfilled ()" by (rule conjunct2)
  have idle: "\<not> isTransactionActive (runner_of (commitTransaction w r))
      \<and> session (runner_of (commitTransaction w r)) = None"
  proof (cases "enableTransactions r")
    case True
    then show ?thesis
      using commit_fulfilled_when_enabled [OF True fulfilled] by simp
  next
    case False
    have "enableTransactions r = enable"
      unfolding history by (simp add: after_calls_keep_enableTransactions MongoQueryRunner_def)
    with False have "\<not> enableTransactions (MongoQueryRunner enable db)"
      by (simp add: MongoQueryRunner_def)
    then have "r = MongoQueryRunner enable db"
      unfolding history by (rule after_calls_when_disabled)
    with False show ?thesis
      by (simp add: commitTransaction_def runner_of_def MongoQueryRunner_def)
  qed
  from idle show "\<not> isTransactionActive (runner_of (commitTransaction w r))" by simp
  from idle show "session (runner_of (commitTransaction w r)) = None" by simp
next
  assume a: "r = after_calls (MongoQueryRunner enable db) history
      \<and> completion_of (rollbackTransaction w r) = Fulfilled ()"
  from a have history: "r = after_calls (MongoQueryRunner enable db) history" by (rule conjunct1)
  from a have fulfilled: "completion_of (rollbackTransaction w r) = Fulfilled ()" by (rule conjunct2)
  have idle: "\<not> isTransactionActive (runner_of (rollbackTransaction w r))
      \<and> session (runner_of (rollbackTransaction w r)) = None"
  proof (cases "enableTransactions r")
    case True
    then show ?thesis
      using rollback_fulfilled_when_enabled [OF True fulfilled] by simp
  next
    case False
    have "enableTransactions r = enable"
      unfolding history by (simp add: after_calls_keep_enableTransactions MongoQueryRunner_def)
    with False have "\<not> enableTransactions (MongoQueryRunner enable db)"
      by (simp add: MongoQueryRunner_def)
    then have "r = MongoQueryRunner enable db"
      unfolding history by (rule after_calls_when_disabled)
    with False show ?thesis
      by (simp add: rollbackTransaction_def runner_of_def MongoQueryRunner_def)
  qed
  from idle show "\<not> isTransactionActive (runner_of (rollbackTransaction w r))" by simp
  from idle show "session (runner_of (rollbackTransaction w r)) = None" by simp
qed

theorem after_successful_calls_witness:
  "enableTransactions (after_calls (MongoQueryRunner True ''test'') [(Start, quiet_world 5)])
   \<and> completion_of (startTransaction (quiet_world 2)
         (after_calls (MongoQueryRunner True ''test'') [(Start, quiet_world 5)])) = Fulfilled ()
   \<and> isTransactionActive (runner_of (startTransaction (quiet_world 2)
         (after_calls (MongoQueryRunner True ''test'') [(Start, quiet_world 5)])))
   \<and> session (runner_of (startTransaction (quiet_world 2)
         (after_calls (MongoQueryRunner True ''test'') [(Start, quiet_world 5)]))) \<noteq> None
   \<and> completion_of (commitTransaction (quiet_world 2)
         (after_calls (MongoQueryRunner True ''test'') [(Start, quiet_world 5)])) = Fulfilled ()
   \<and> \<not> isTransactionActive (runner_of (commitTransaction (quiet_world 2)
         (after_calls (MongoQueryRunner True ''test'') [(Start, quiet_world 5)])))
   \<and> session (runner_of (commitTransaction (quiet_world 2)
         (after_calls (MongoQueryRunner True ''test'') [(Start, quiet_world 5)]))) = None
   \<and> completion_of (rollbackTransaction (quiet_world 2)
         (after_calls (MongoQueryRunner True ''test'') [(Start, quiet_world 5)])) = Fulfilled ()
   \<and> \<not> isTransactionActive (runner_of (rollbackTransaction (quiet_world 2)
         (after_calls (MongoQueryRunner True ''test'') [(Start, quiet_world 5)])))
   \<and> session (runner_of (rollbackTransaction (quiet_world 2)
         (after_calls (MongoQueryRunner True ''test'') [(Start, quiet_world 5)]))) = None"
proof -
  let ?r = "after_calls (MongoQueryRunner True ''test'') [(Start, quiet_world 5)]"
  have r: "?r = \<lparr> enableTransactions = True, database = ''test'', isReleased = False,
      isTransactionActive = True, session = Some 5 \<rparr>"
    by (simp add: after_calls_def MongoQueryRunner_def quiet_world_def startTransaction_def
        runner_of_def)
  have enabled: "enableTransactions ?r"
    unfolding r by simp
  have started: "completion_of (startTransaction (quiet_world 2) ?r) = Fulfilled ()"
    unfolding r by (simp add: quiet_world_def startTransaction_def completion_of_def)
  have committed: "completion_of (commitTransaction (quiet_world 2) ?r) = Fulfilled ()"
    unfolding r by (simp add: quiet_world_def commitTransaction_def completion_of_def)
  have rolled_back: "completion_of (rollbackTransaction (quiet_world 2) ?r) = Fulfilled ()"
    unfolding r by (simp add: quiet_world_def rollbackTransaction_def completion_of_def)
  show ?thesis
    using enabled started committed rolled_back
      after_successful_calls [of ?r "quiet_world 2" True "''test''" "[(Start, quiet_world 5)]"]
    by blast
qed

subsection \<open>Failure inside a commit\<close>

text \<open>
  Claim C7, as the code has it. With a transaction active and its session held, when the
  notification before the commit has succeeded and the session's commit fails, or its
  commit succeeds and the call of \<^verbatim>\<open>endSession\<close> throws, \<^verbatim>\<open>commitTransaction\<close> rejects with that
  failure and the runner is as before the call: the flag still set, the session still
  stored.
\<close>

theorem failed_commit_leaves_transaction_active:
  assumes "enableTransactions r" and "isTransactionActive r" and "session r = Some sid"
    and "broadcast w BeforeTransactionCommit = None"
    and "session_commitTransaction w sid = Some e
         \<or> (session_commitTransaction w sid = None \<and> session_endSession w sid = ThrowsNow e)"
  shows "completion_of (commitTransaction w r) = Rejected e
         \<and> runner_of (commitTransaction w r) = r
         \<and> isTransactionActive (runner_of (commitTransaction w r))
         \<and> session (runner_of (commitTransaction w r)) = Some sid"
  using assms by (auto simp add: commitTransaction_def runner_of_def completion_of_def)

theorem failed_commit_leaves_transaction_active_witness:
  "completion_of (commitTransaction
       ((quiet_world 2)\<lparr>session_commitTransaction := (\<lambda>_. Some (External 0))\<rparr>)
       (after_calls (MongoQueryRunner True ''test'') [(Start, quiet_world 5)]))
     = Rejected (External 0)
   \<and> runner_of (commitTransaction
       ((quiet_world 2)\<lparr>session_commitTransaction := (\<lambda>_. Some (External 0))\<rparr>)
       (after_calls (MongoQueryRunner True ''test'') [(Start, quiet_world 5)]))
     = after_calls (MongoQueryRunner True ''test'') [(Start, quiet_world 5)]
   \<and> completion_of (commitTransaction
       ((quiet_world 2)\<lparr>session_endSession := (\<lambda>_. ThrowsNow (External 3))\<rparr>)
       (after_calls (MongoQueryRunner True ''test'') [(Start, quiet_world 5)]))
     = Rejected (External 3)
   \<and> isTransactionActive (runner_of (commitTransaction
       ((quiet_world 2)\<lparr>session_endSession := (\<lambda>_. ThrowsNow (External 3))\<rparr>)
       (after_calls (MongoQueryRunner True ''test'') [(Start, quiet_world 5)])))
   \<and> session (runner_of (commitTransaction
       ((quiet_world 2)\<lparr>session_endSession := (\<lambda>_. ThrowsNow (External 3))\<rparr>)
       (after_calls (MongoQueryRunner True ''test'') [(Start, quiet_world 5)]))) = Some 5"
proof -
  let ?r = "after_calls (MongoQueryRunner True ''test'') [(Start, quiet_world 5)]"
  let ?w1 = "(quiet_world 2)\<lparr>session_commitTransaction := (\<lambda>_. Some (External 0))\<rparr>"
  let ?w2 = "(quiet_world 2)\<lparr>session_endSession := (\<lambda>_. ThrowsNow (External 3))\<rparr>"
  have r: "?r = \<lparr> enableTransactions = True, database = ''test'', isReleased = False,
      isTransactionActive = True, session = Some 5 \<rparr>"
    by (simp add: after_calls_def MongoQueryRunner_def quiet_world_def startTransaction_def
        runner_of_def)
  have enabled: "enableTransactions ?r" and active: "isTransactionActive ?r"
    and held: "session ?r = Some 5"
    unfolding r by simp_all
  have before1: "broadcast ?w1 BeforeTransactionCommit = None"
    and before2: "broadcast ?w2 BeforeTransactionCommit = None"
    by (simp_all add: quiet_world_def)
  have fails1: "session_commitTransaction ?w1 5 = Some (External 0)
      \<or> (session_commitTransaction ?w1 5 = None \<and> session_endSession ?w1 5 = ThrowsNow (External 0))"
    by (simp add: quiet_world_def)
  have fails2: "session_commitTransaction ?w2 5 = Some (External 3)
      \<or> (session_commitTransaction ?w2 5 = None \<and> session_endSession ?w2 5 = ThrowsNow (External 3))"
    by (simp add: quiet_world_def)
  show ?thesis
    using failed_commit_leaves_transaction_active [OF enabled active held before1 fails1]
      failed_commit_leaves_transaction_active [OF enabled active held before2 fails2]
    by blast
qed

text \<open>
  Claim C7 as stated fails where ending the session fails through the promise that
  \<^verbatim>\<open>endSession\<close> returns: the promise is not awaited, so the failure is not raised, and the
  commit is fulfilled with the flag cleared and the session dropped.
\<close>

theorem rejected_endSession_is_not_raised:
  "isTransactionActive (after_calls (MongoQueryRunner True ''test'') [(Start, quiet_world 5)])
   \<and> session (after_calls (MongoQueryRunner True ''test'') [(Start, quiet_world 5)]) = Some 5
   \<and> session_endSession
         ((quiet_world 2)\<lparr>session_endSession := (\<lambda>_. RejectsLater (External 3))\<rparr>) 5
       = RejectsLater (External 3)
   \<and> completion_of (commitTransaction
         ((quiet_world 2)\<lparr>session_endSession := (\<lambda>_. RejectsLater (External 3))\<rparr>)
         (after_calls (MongoQueryRunner True ''test'') [(Start, quiet_world 5)]))
       = Fulfilled ()
   \<and> \<not> isTransactionActive (runner_of (commitTransaction
         ((quiet_world 2)\<lparr>session_endSession := (\<lambda>_. RejectsLater (External 3))\<rparr>)
         (after_calls (MongoQueryRunner True ''test'') [(Start, quiet_world 5)])))
   \<and> session (runner_of (commitTransaction
         ((quiet_world 2)\<lparr>session_endSession := (\<lambda>_. RejectsLater (External 3))\<rparr>)
         (after_calls (MongoQueryRunner True ''test'') [(Start, quiet_world 5)]))) = None"
  by (simp add: after_calls_def MongoQueryRunner_def quiet_world_def startTransaction_def
      commitTransaction_def runner_of_def completion_of_def)

subsection \<open>Starting with transactions not enabled\<close>

text \<open>
  Claim C8. With transactions not enabled, \<^verbatim>\<open>startTransaction\<close> is fulfilled, leaves the
  runner unchanged and calls no collaborator: no notification is broadcast and no session
  is started. On a runner created with transactions not enabled, after any history of
  transaction calls, the flag is therefore still false and no session is stored.
\<close>

theorem start_when_transactions_disabled:
  "(\<not> enableTransactions r \<longrightarrow> startTransaction w r = (Fulfilled (), r, []))
   \<and> \<not> isTransactionActive (runner_of (startTransaction w
         (after_calls (MongoQueryRunner False db) history)))
   \<and> session (runner_of (startTransaction w
         (after_calls (MongoQueryRunner False db) history))) = None"
proof -
  have "after_calls (MongoQueryRunner False db) history = MongoQueryRunner False db"
    by (rule after_calls_when_disabled) (simp add: MongoQueryRunner_def)
  then show ?thesis
    by (simp add: startTransaction_def runner_of_def MongoQueryRunner_def)
qed

theorem start_when_transactions_disabled_witness:
  "\<not> enableTransactions (MongoQueryRunner False ''test'')
   \<and> startTransaction (quiet_world 5) (MongoQueryRunner False ''test'')
       = (Fulfilled (), MongoQueryRunner False ''test'', [])
   \<and> \<not> isTransactionActive (runner_of (startTransaction (quiet_world 5)
         (after_calls (MongoQueryRunner False ''test'') [(Start, quiet_world 5)])))
   \<and> session (runner_of (startTransaction (quiet_world 5)
         (after_calls (MongoQueryRunner False ''test'') [(Start, quiet_world 5)]))) = None"
  using start_when_transactions_disabled
    [of "MongoQueryRunner False ''test''" "quiet_world 5" "''test''" "[(Start, quiet_world 5)]"]
  by (simp add: MongoQueryRunner_def)

subsection \<open>Clearing\<close>

text \<open>
  Claim C9. Whatever the flag and the session are, \<^verbatim>\<open>clearDatabase\<close> makes exactly one call,
  the drop of the connection's database, and \<^verbatim>\<open>clearTable\<close> exactly one, the drop of the
  named collection in that database; neither call is given options, so neither carries
  the session, and neither method changes the runner.
\<close>

theorem clear_operations_drop_without_session:
  "effects_of (clearDatabase w r) = [DbDropDatabase (database r) None]
   \<and> runner_of (clearDatabase w r) = r
   \<and> effects_of (clearTable w r collectionName)
       = [DbDropCollection (database r) collectionName None]
   \<and> runner_of (clearTable w r collectionName) = r
   \<and> forwarded_sessions (effects_of (clearDatabase w r)) = [None]
   \<and> forwarded_sessions (effects_of (clearTable w r collectionName)) = [None]"
  by (simp add: clearDatabase_def clearTable_def effects_of_def runner_of_def session_in_def)

subsection \<open>Failure of the notification after the start\<close>

text \<open>
  Claim C10. With transactions enabled, when the session has been created, its transaction
  begun and the query logged, and the \<^verbatim>\<open>AfterTransactionStart\<close> notification then fails,
  \<^verbatim>\<open>startTransaction\<close> rejects with that failure while the flag stays set and the new session
  stays stored.
\<close>

theorem failed_after_start_notification:
  assumes "enableTransactions r"
    and "broadcast w BeforeTransactionStart = None"
    and "startSession w = Inr sid"
    and "session_startTransaction w sid = None"
    and "logQuery w ''BEGIN TRANSACTION'' = None"
    and "broadcast w AfterTransactionStart = Some e"
  shows "completion_of (startTransaction w r) = Rejected e
         \<and> isTransactionActive (runner_of (startTransaction w r))
         \<and> session (runner_of (startTransaction w r)) = Some sid"
  using assms by (simp add: startTransaction_def runner_of_def completion_of_def)

theorem failed_after_start_notification_witness:
  "completion_of (startTransaction
       ((quiet_world 5)\<lparr>broadcast :=
          (\<lambda>ev. if ev = AfterTransactionStart then Some (External 0) else None)\<rparr>)
       (MongoQueryRunner True ''test'')) = Rejected (External 0)
   \<and> isTransactionActive (runner_of (startTransaction
       ((quiet_world 5)\<lparr>broadcast :=
          (\<lambda>ev. if ev = AfterTransactionStart then Some (External 0) else None)\<rparr>)
       (MongoQueryRunner True ''test'')))
   \<and> session (runner_of (startTransaction
       ((quiet_world 5)\<lparr>broadcast :=
          (\<lambda>ev. if ev = AfterTransactionStart then Some (External 0) else None)\<rparr>)
       (MongoQueryRunner True ''test''))) = Some 5"
proof -
  let ?w = "(quiet_world 5)\<lparr>broadcast :=
      (\<lambda>ev. if ev = AfterTransactionStart then Some (External 0) else None)\<rparr>"
  have enabled: "enableTransactions (MongoQueryRunner True ''test'')"
    by (simp add: MongoQueryRunner_def)
  have before: "broadcast ?w BeforeTransactionStart = None"
    and created: "startSession ?w = Inr 5"
    and begun: "session_startTransaction ?w 5 = None"
    and logged: "logQuery ?w ''BEGIN TRANSACTION'' = None"
    and after: "broadcast ?w AfterTransactionStart = Some (External 0)"
    by (simp_all add: quiet_world_def)
  show ?thesis
    using failed_after_start_notification [OF enabled before created begun logged after]
    by simp
qed

end
